theory Spec2Isabelle
  imports Main "HOL-Library.AList" "HOL-Library.Multiset" "HOL-Library.Log_Nat"
begin

section \<open>The PurpleAir dataset: data model\<close>

text \<open>
  The development follows \<^verbatim>\<open>purple_air_system.py\<close> (class \<^verbatim>\<open>DataSet\<close>). Of the
  earlier snapshot of the same class (\<^verbatim>\<open>Sample system.py\<close>) the constructor, which
  differs, is modelled as well.

  A reading is the tuple \<^verbatim>\<open>(zip, time, concentration)\<close> that \<^verbatim>\<open>load_file\<close> appends to
  \<^verbatim>\<open>data_list\<close>. Python strings are sequences of code points; a \<open>string\<close> here has
  one element per code point, so \<open>length\<close> is Python's \<^verbatim>\<open>len\<close>. A concentration is
  a Python float: it is represented by the rational number it denotes (infinities and
  NaN are outside the model), and the rounding of every float operation is made explicit
  by the function \<open>rnd\<close> that the arithmetic below takes as an argument.
\<close>

type_synonym reading = "string \<times> string \<times> rat"

datatype error = EmptyDatasetError | NoMatchingItems | ValueError | LookupError | TypeError

datatype Stats = Stats_MIN | Stats_AVG | Stats_MAX

text \<open>
  The attributes of \<^verbatim>\<open>DataSet\<close>. \<^verbatim>\<open>_data\<close> is \<^verbatim>\<open>None\<close> until a load. \<^verbatim>\<open>_zips\<close> is a
  Python dict, which iterates in insertion order: an association list, updated with
  \<^const>\<open>AList.update\<close> (a present key keeps its position, a new key goes to the end).
  \<^verbatim>\<open>_times\<close> is a set at construction and a list after a load; only its iteration order
  is observed, so it is a list.
\<close>

record dataset =
  data :: "reading list option"
  header :: string
  zips :: "(string \<times> bool) list"
  times_list :: "string list"

text \<open>
  Every method is a function from the state to its outcome (\<open>Inl\<close> the exception raised)
  and the state it leaves behind.
\<close>

type_synonym 'a outcome = "(error + 'a) \<times> dataset"

subsection \<open>Construction and the header property\<close>

text \<open>\<^verbatim>\<open>DataSet.__init__\<close> of \<^verbatim>\<open>purple_air_system.py\<close> stores the argument in \<^verbatim>\<open>_header\<close> directly.\<close>

definition DataSet :: "string \<Rightarrow> dataset" where
  "DataSet h = \<lparr>data = None, header = h, zips = [], times_list = []\<rparr>"

definition max_header_length :: nat where
  "max_header_length = 30"

text \<open>The setter of the property \<^verbatim>\<open>header\<close>.\<close>

definition set_header :: "string \<Rightarrow> dataset \<Rightarrow> unit outcome" where
  "set_header h ds =
     (if length h \<le> max_header_length then (Inr (), ds\<lparr>header := h\<rparr>)
      else (Inl ValueError, ds))"

text \<open>
  \<^verbatim>\<open>DataSet.__init__\<close> of the earlier snapshot assigns \<^verbatim>\<open>self.header = header\<close>, which goes
  through the setter; when the setter raises, no object is constructed.
\<close>

definition DataSet_sample :: "string \<Rightarrow> error + dataset" where
  "DataSet_sample h =
     (case set_header h \<lparr>data = None, header = [], zips = [], times_list = []\<rparr> of
        (Inl e, _) \<Rightarrow> Inl e
      | (Inr _, ds) \<Rightarrow> Inr (ds\<lparr>zips := [], times_list := []\<rparr>))"

subsection \<open>Zip code filters\<close>

definition get_zips :: "dataset \<Rightarrow> ((string \<times> bool) list) outcome" where
  "get_zips ds = (Inr (zips ds), ds)"

definition toggle_zip :: "string \<Rightarrow> dataset \<Rightarrow> unit outcome" where
  "toggle_zip target_zip ds =
     (case map_of (zips ds) target_zip of
        None \<Rightarrow> (Inl LookupError, ds)
      | Some active \<Rightarrow>
          (Inr (), ds\<lparr>zips := AList.update target_zip (\<not> active) (zips ds)\<rparr>))"

subsection \<open>Loading\<close>

text \<open>
  \<^verbatim>\<open>_initialize_labels\<close>. The dict comprehension inserts the zip codes in the order of
  the readings. \<^verbatim>\<open>list(set(...))\<close> enumerates the distinct time labels in an order
  that Python leaves open (it depends on the hashes of the strings): \<open>set_order\<close> is
  that enumeration, taken as an argument. Iterating over \<^verbatim>\<open>_data\<close> when it is \<^verbatim>\<open>None\<close>
  raises \<^verbatim>\<open>TypeError\<close>, after \<^verbatim>\<open>_zips\<close> has been emptied.
\<close>

definition initialize_labels :: "(string list \<Rightarrow> string list) \<Rightarrow> dataset \<Rightarrow> unit outcome" where
  "initialize_labels set_order ds =
     (let ds1 = ds\<lparr>zips := []\<rparr> in
      case data ds1 of
        None \<Rightarrow> (Inl TypeError, ds1)
      | Some rows \<Rightarrow>
          (let zip_code = map fst rows;
               zip_code_dict = fold (\<lambda>item d. AList.update item True d) zip_code [];
               ds2 = ds1\<lparr>zips := zip_code_dict\<rparr>;
               time_of_day = set_order (map (\<lambda>item. fst (snd item)) rows)
           in (Inr (), ds2\<lparr>times_list := time_of_day\<rparr>)))"

text \<open>
  \<^verbatim>\<open>load_file\<close>, after the file has been read: \<open>data_list\<close> is the list of tuples built
  from the rows of the CSV file (reading and parsing the file, and the message that
  reports the number of lines, are outside the model).
\<close>

definition load_file :: "(string list \<Rightarrow> string list) \<Rightarrow> reading list \<Rightarrow> dataset \<Rightarrow> unit outcome" where
  "load_file set_order data_list ds = initialize_labels set_order (ds\<lparr>data := Some data_list\<rparr>)"

section \<open>Cross-table statistics\<close>

subsection \<open>Python's reductions\<close>

text \<open>
  \<^verbatim>\<open>min\<close> and \<^verbatim>\<open>max\<close> of a non-empty sequence start from its first element and replace
  the current value by a later one that is strictly smaller (larger).
\<close>

definition py_min :: "rat \<Rightarrow> rat list \<Rightarrow> rat" where
  "py_min x xs = fold (\<lambda>item m. if item < m then item else m) xs x"

definition py_max :: "rat \<Rightarrow> rat list \<Rightarrow> rat" where
  "py_max x xs = fold (\<lambda>item m. if item > m then item else m) xs x"

text \<open>
  \<^verbatim>\<open>sum\<close> adds the elements from left to right, starting from 0; every float addition
  rounds its exact result with \<open>rnd\<close>.
\<close>

definition py_sum :: "(rat \<Rightarrow> rat) \<Rightarrow> rat list \<Rightarrow> rat" where
  "py_sum rnd xs = fold (\<lambda>item acc. rnd (acc + item)) xs 0"

text \<open>\<^verbatim>\<open>concentrations[stat.value]\<close>, with \<^verbatim>\<open>MIN = 0\<close>, \<^verbatim>\<open>AVG = 1\<close>, \<^verbatim>\<open>MAX = 2\<close>.\<close>

fun stat_value :: "Stats \<Rightarrow> nat" where
  "stat_value Stats_MIN = 0"
| "stat_value Stats_AVG = 1"
| "stat_value Stats_MAX = 2"

definition tuple_item :: "rat \<times> rat \<times> rat \<Rightarrow> nat \<Rightarrow> rat" where
  "tuple_item t i = (case t of (a, b, c) \<Rightarrow> if i = 0 then a else if i = 1 then b else c)"

subsection \<open>\<^verbatim>\<open>_cross_table_statistics\<close>\<close>

text \<open>The list comprehension over \<^verbatim>\<open>_data\<close>, as the loop it abbreviates.\<close>

fun matching_concentrations :: "string \<Rightarrow> string \<Rightarrow> reading list \<Rightarrow> rat list" where
  "matching_concentrations descriptor_one descriptor_two [] = []"
| "matching_concentrations descriptor_one descriptor_two (thing # rest) =
     (if fst thing = descriptor_one \<and> fst (snd thing) = descriptor_two
      then snd (snd thing) # matching_concentrations descriptor_one descriptor_two rest
      else matching_concentrations descriptor_one descriptor_two rest)"

definition cross_table_statistics ::
  "(rat \<Rightarrow> rat) \<Rightarrow> string \<Rightarrow> string \<Rightarrow> dataset \<Rightarrow> (rat \<times> rat \<times> rat) outcome" where
  "cross_table_statistics rnd descriptor_one descriptor_two ds =
     (case data ds of
        None \<Rightarrow> (Inl EmptyDatasetError, ds)
      | Some rows \<Rightarrow>
          (case matching_concentrations descriptor_one descriptor_two rows of
             [] \<Rightarrow> (Inl NoMatchingItems, ds)
           | c # cs \<Rightarrow>
               (Inr (py_min c cs,
                     rnd (py_sum rnd (c # cs) / of_nat (length (c # cs))),
                     py_max c cs), ds)))"

subsection \<open>Float arithmetic\<close>

text \<open>
  Exact arithmetic is \<open>rnd = (\<lambda>x. x)\<close>. CPython's float is IEEE 754 binary64 with
  round-to-nearest, ties to even: \<open>float64 x\<close> is the double nearest to \<open>x\<close>, a multiple
  of \<open>2 ^ e\<close> with at most 53 significant bits, where \<open>e\<close> is at least \<open>- 1074\<close>
  (results beyond the largest double, which Python turns into infinity, are outside the
  model).
\<close>

definition round_half_even :: "rat \<Rightarrow> int" where
  "round_half_even x =
     (let f = \<lfloor>x\<rfloor>; d = x - of_int f
      in if d < 1 / 2 then f else if d > 1 / 2 then f + 1 else if even f then f else f + 1)"

definition pow2 :: "int \<Rightarrow> rat" where
  "pow2 k = (if k \<ge> 0 then 2 ^ nat k else 1 / 2 ^ nat (- k))"

text \<open>\<open>ilog2 x\<close> is \<open>\<lfloor>log\<^sub>2 x\<rfloor>\<close> for a positive rational \<open>x\<close>.\<close>

definition ilog2 :: "rat \<Rightarrow> int" where
  "ilog2 x =
     (case quotient_of x of (p, q) \<Rightarrow>
        let k = bitlen p - bitlen q
        in if pow2 k \<le> x then k else k - 1)"

definition float64 :: "rat \<Rightarrow> rat" where
  "float64 x =
     (if x = 0 then 0
      else let e = max (ilog2 \<bar>x\<bar> - 52) (- 1074)
           in of_int (round_half_even (x / pow2 e)) * pow2 e)"

section \<open>The cross table\<close>

subsection \<open>Format specifications\<close>

text \<open>
  \<^verbatim>\<open>f"{s: >10}"\<close> pads on the left with spaces up to the width, \<^verbatim>\<open>f"{s:5}"\<close> pads a
  string on the right; neither truncates.
\<close>

definition rjust :: "nat \<Rightarrow> string \<Rightarrow> string" where
  "rjust w s = replicate (w - length s) (CHR '' '') @ s"

definition ljust :: "nat \<Rightarrow> string \<Rightarrow> string" where
  "ljust w s = s @ replicate (w - length s) (CHR '' '')"

definition digit :: "nat \<Rightarrow> char" where
  "digit d = ''0123456789'' ! (d mod 10)"

function digits :: "nat \<Rightarrow> string" where
  "digits n = (if n < 10 then [digit n] else digits (n div 10) @ [digit (n mod 10)])"
  by pat_completeness auto
termination
  by (relation "measure (\<lambda>n. n)") auto

text \<open>
  \<^verbatim>\<open>.2f\<close>: the value rounded to hundredths (ties to even, on the exact value of the
  float), with a minus sign for a negative value.
\<close>

definition format_2f :: "rat \<Rightarrow> string" where
  "format_2f x =
     (let n = nat (round_half_even (\<bar>x\<bar> * 100))
      in (if x < 0 then ''-'' else []) @ digits (n div 100) @ ''.''
         @ [digit (n div 10 mod 10), digit (n mod 10)])"

definition newline :: char where
  "newline = CHR 0x0A"

subsection \<open>\<^verbatim>\<open>display_cross_table\<close>\<close>

text \<open>
  The printed text is accumulated in \<open>out\<close>. The inner loop prints the cells of one row;
  \<^verbatim>\<open>NoMatchingItems\<close> is caught, any other exception ends the iteration.
\<close>

fun print_cells ::
  "(rat \<Rightarrow> rat) \<Rightarrow> Stats \<Rightarrow> string \<Rightarrow> string list \<Rightarrow> string \<Rightarrow> dataset
     \<Rightarrow> string \<times> unit outcome" where
  "print_cells rnd stat zip_code [] out ds = (out, Inr (), ds)"
| "print_cells rnd stat zip_code (item # items) out ds =
     (case cross_table_statistics rnd zip_code item ds of
        (Inr concentrations, ds') \<Rightarrow>
          print_cells rnd stat zip_code items
            (out @ rjust 10 (format_2f (tuple_item concentrations (stat_value stat)))) ds'
      | (Inl NoMatchingItems, ds') \<Rightarrow>
          print_cells rnd stat zip_code items (out @ rjust 10 ''N/A'') ds'
      | (Inl e, ds') \<Rightarrow> (out, Inl e, ds'))"

fun print_rows ::
  "(rat \<Rightarrow> rat) \<Rightarrow> Stats \<Rightarrow> string list \<Rightarrow> string \<Rightarrow> dataset \<Rightarrow> string \<times> unit outcome" where
  "print_rows rnd stat [] out ds = (out, Inr (), ds)"
| "print_rows rnd stat (zip_code # rest) out ds =
     (case print_cells rnd stat zip_code (times_list ds) (out @ ljust 5 zip_code) ds of
        (out', Inr _, ds') \<Rightarrow> print_rows rnd stat rest (out' @ [newline]) ds'
      | (out', Inl e, ds') \<Rightarrow> (out', Inl e, ds'))"

definition display_cross_table ::
  "(rat \<Rightarrow> rat) \<Rightarrow> Stats \<Rightarrow> dataset \<Rightarrow> string \<times> unit outcome" where
  "display_cross_table rnd stat ds =
     (if data ds = None \<or> data ds = Some []
      then (''Please load a dataset first'' @ [newline], Inr (), ds)
      else
        let out = ''     '';
            out = fold (\<lambda>time_of_day out. out @ rjust 10 time_of_day) (times_list ds) out;
            out = out @ [newline];
            filtered_zips =
              fold (\<lambda>(key, value) d. AList.update key value d)
                (filter (\<lambda>(key, value). value = True) (zips ds)) []
        in print_rows rnd stat (map fst filtered_zips) out ds)"

section \<open>Sessions\<close>

text \<open>
  The menu drives one \<^verbatim>\<open>DataSet\<close> object through a sequence of method calls; an
  exception is caught by the caller and the session goes on from the state the call
  left behind.
\<close>

datatype command =
    SetHeader string
  | ToggleZip string
  | LoadFile "reading list"
  | GetZips
  | Statistics string string
  | Display Stats

fun exec :: "(rat \<Rightarrow> rat) \<Rightarrow> (string list \<Rightarrow> string list) \<Rightarrow> command \<Rightarrow> dataset \<Rightarrow> dataset" where
  "exec rnd set_order (SetHeader h) ds = snd (set_header h ds)"
| "exec rnd set_order (ToggleZip z) ds = snd (toggle_zip z ds)"
| "exec rnd set_order (LoadFile data_list) ds = snd (load_file set_order data_list ds)"
| "exec rnd set_order GetZips ds = snd (get_zips ds)"
| "exec rnd set_order (Statistics z t) ds = snd (cross_table_statistics rnd z t ds)"
| "exec rnd set_order (Display stat) ds = snd (snd (display_cross_table rnd stat ds))"

fun is_load :: "command \<Rightarrow> bool" where
  "is_load (LoadFile data_list) = True"
| "is_load c = False"

definition session ::
  "(rat \<Rightarrow> rat) \<Rightarrow> (string list \<Rightarrow> string list) \<Rightarrow> string \<Rightarrow> command list \<Rightarrow> dataset" where
  "session rnd set_order h cmds = fold (exec rnd set_order) cmds (DataSet h)"

section \<open>Specification vocabulary\<close>

text \<open>The distinct elements of a list, each at the position of its first occurrence.\<close>

fun first_occurrences :: "'a list \<Rightarrow> 'a list" where
  "first_occurrences [] = []"
| "first_occurrences (x # xs) = x # removeAll x (first_occurrences xs)"

text \<open>The concentrations of the readings that match a zip code and a time label.\<close>

definition matching :: "string \<Rightarrow> string \<Rightarrow> reading list \<Rightarrow> rat multiset" where
  "matching z t rows =
     image_mset (\<lambda>r. snd (snd r)) (filter_mset (\<lambda>r. fst r = z \<and> fst (snd r) = t) (mset rows))"

text \<open>
  The table of the report: a header line with the time labels, then one line for each
  active zip code, in the order of \<open>zips\<close>; a cell shows the selected statistic with two
  decimals, or \<^verbatim>\<open>N/A\<close>, in a field of width 10.
\<close>

definition selected :: "Stats \<Rightarrow> rat \<times> rat \<times> rat \<Rightarrow> rat" where
  "selected stat tr =
     (case stat of Stats_MIN \<Rightarrow> fst tr | Stats_AVG \<Rightarrow> fst (snd tr) | Stats_MAX \<Rightarrow> snd (snd tr))"

definition cell_text :: "(rat \<Rightarrow> rat) \<Rightarrow> Stats \<Rightarrow> dataset \<Rightarrow> string \<Rightarrow> string \<Rightarrow> string" where
  "cell_text rnd stat ds z t =
     (case fst (cross_table_statistics rnd z t ds) of
        Inr tr \<Rightarrow> rjust 10 (format_2f (selected stat tr))
      | Inl e \<Rightarrow> rjust 10 ''N/A'')"

definition row_text :: "(rat \<Rightarrow> rat) \<Rightarrow> Stats \<Rightarrow> dataset \<Rightarrow> string \<Rightarrow> string" where
  "row_text rnd stat ds z =
     ljust 5 z @ concat (map (cell_text rnd stat ds z) (times_list ds)) @ [newline]"

definition active_zips :: "dataset \<Rightarrow> string list" where
  "active_zips ds = map fst (filter snd (zips ds))"

definition table_text :: "(rat \<Rightarrow> rat) \<Rightarrow> Stats \<Rightarrow> dataset \<Rightarrow> string" where
  "table_text rnd stat ds =
     ''     '' @ concat (map (rjust 10) (times_list ds)) @ [newline]
     @ concat (map (row_text rnd stat ds) (active_zips ds))"

definition notice_text :: string where
  "notice_text = ''Please load a dataset first'' @ [newline]"

section \<open>Example data\<close>

text \<open>The readings of \<^verbatim>\<open>load_default_data\<close> in the earlier snapshot.\<close>

definition default_data :: "reading list" where
  "default_data =
     [(''12345'', ''Morning'', 11 / 10), (''94022'', ''Morning'', 22 / 10),
      (''94040'', ''Morning'', 3), (''94022'', ''Midday'', 1),
      (''94040'', ''Morning'', 1), (''94022'', ''Evening'', 32 / 10)]"

definition default_dataset :: dataset where
  "default_dataset = snd (load_file remdups default_data (DataSet ''CLEAN AIR 2022''))"



definition empty_file_dataset :: dataset where
  "empty_file_dataset = snd (load_file remdups [] (DataSet []))"

definition long_header :: string where
  "long_header = ''0123456789012345678901234567890''"

definition toggled_dataset :: dataset where
  "toggled_dataset =
     \<lparr>data = Some default_data, header = ''CLEAN AIR 2022'',
      zips = [(''12345'', True), (''94022'', True), (''94040'', False)],
      times_list = [''Midday'', ''Morning'', ''Evening'']\<rparr>"

section \<open>The header\<close>

text \<open>
  Claim C5 (every reachable state has a header of at most 30 characters, also right after
  construction with a header argument): the constructor of \<^verbatim>\<open>purple_air_system.py\<close>
  stores a header of 31 characters unchecked, where the constructor of the earlier
  snapshot, which goes through the setter, raises \<^verbatim>\<open>ValueError\<close>.
\<close>

theorem constructor_keeps_long_header:
  "length long_header = 31
   \<and> length (header (DataSet long_header)) = 31
   \<and> DataSet_sample long_header = Inl ValueError"
  by (simp add: long_header_def DataSet_def DataSet_sample_def set_header_def
      max_header_length_def)

text \<open>
  Claim C6: the header setter accepts every string of length at most 30, after which the
  stored header is that string; for every string of length 31 or more it raises
  \<^verbatim>\<open>ValueError\<close> and leaves the dataset, the stored header included, as it was.
\<close>

theorem set_header_accepts_rejects:
  "(length h \<le> 30 \<longrightarrow>
      fst (set_header h ds) = Inr () \<and> header (snd (set_header h ds)) = h
      \<and> snd (set_header h ds) = ds\<lparr>header := h\<rparr>)
   \<and> (31 \<le> length h \<longrightarrow>
      fst (set_header h ds) = Inl ValueError \<and> snd (set_header h ds) = ds)"
  by (simp add: set_header_def max_header_length_def)

theorem set_header_accepts_rejects_witness:
  "length ''CLEAN AIR 2022'' \<le> 30
   \<and> set_header ''CLEAN AIR 2022'' (DataSet ''old'') = (Inr (), DataSet ''CLEAN AIR 2022'')
   \<and> 31 \<le> length long_header
   \<and> set_header long_header (DataSet ''old'') = (Inl ValueError, DataSet ''old'')"
  using set_header_accepts_rejects [of "''CLEAN AIR 2022''" "DataSet ''old''"]
        set_header_accepts_rejects [of long_header "DataSet ''old''"]
  by (simp add: DataSet_def prod_eq_iff long_header_def)

section \<open>Toggling a zip code\<close>

lemma map_of_eq_None_keys: "map_of al k = None \<longleftrightarrow> k \<notin> fst ` set al"
  by (simp add: map_of_eq_None_iff)

lemma update_other_entries:
  "filter (\<lambda>p. fst p \<noteq> k) (AList.update k v al) = filter (\<lambda>p. fst p \<noteq> k) al"
  by (induction al) auto

text \<open>
  Claim C7: \<^verbatim>\<open>toggle_zip(z)\<close> on a \<open>z\<close> that is not a key of \<^verbatim>\<open>_zips\<close> raises
  \<^verbatim>\<open>LookupError\<close> and leaves the whole dataset unchanged; on a key it flips the flag of
  \<open>z\<close> and leaves the readings, the time labels, the header, the keys of \<^verbatim>\<open>_zips\<close> and
  their order, and the entries of all other zip codes unchanged.
\<close>

theorem toggle_zip_frame:
  "(z \<notin> fst ` set (zips ds) \<longrightarrow> toggle_zip z ds = (Inl LookupError, ds))
   \<and> (z \<in> fst ` set (zips ds) \<longrightarrow>
        fst (toggle_zip z ds) = Inr ()
        \<and> data (snd (toggle_zip z ds)) = data ds
        \<and> times_list (snd (toggle_zip z ds)) = times_list ds
        \<and> header (snd (toggle_zip z ds)) = header ds
        \<and> map fst (zips (snd (toggle_zip z ds))) = map fst (zips ds)
        \<and> map_of (zips (snd (toggle_zip z ds))) z = map_option Not (map_of (zips ds) z)
        \<and> filter (\<lambda>p. fst p \<noteq> z) (zips (snd (toggle_zip z ds)))
            = filter (\<lambda>p. fst p \<noteq> z) (zips ds))"
proof (cases "map_of (zips ds) z")
  case None
  then have "z \<notin> fst ` set (zips ds)"
    by (simp add: map_of_eq_None_keys)
  with None show ?thesis
    by (simp add: toggle_zip_def)
next
  case (Some active)
  then have "z \<in> fst ` set (zips ds)"
    by (metis map_of_eq_None_keys option.distinct(1))
  with Some show ?thesis
    by (simp add: toggle_zip_def update_keys update_conv' update_other_entries)
qed

theorem toggle_zip_frame_witness:
  "''94022'' \<in> fst ` set (zips toggled_dataset)
   \<and> toggle_zip ''94022'' toggled_dataset
       = (Inr (), toggled_dataset
            \<lparr>zips := [(''12345'', True), (''94022'', False), (''94040'', False)]\<rparr>)
   \<and> ''99999'' \<notin> fst ` set (zips toggled_dataset)
   \<and> toggle_zip ''99999'' toggled_dataset = (Inl LookupError, toggled_dataset)"
  using toggle_zip_frame [of "''94022''" toggled_dataset]
        toggle_zip_frame [of "''99999''" toggled_dataset]
  by (simp add: toggled_dataset_def toggle_zip_def)

text \<open>
  Claim C8: for a key \<open>z\<close> of \<^verbatim>\<open>_zips\<close>, two calls of \<^verbatim>\<open>toggle_zip(z)\<close> in succession
  both succeed and leave \<^verbatim>\<open>_zips\<close>, and with it the whole dataset, as it was before
  the two calls.
\<close>

theorem toggle_zip_involution:
  assumes "z \<in> fst ` set (zips ds)"
  shows "fst (toggle_zip z ds) = Inr ()
    \<and> fst (toggle_zip z (snd (toggle_zip z ds))) = Inr ()
    \<and> snd (toggle_zip z (snd (toggle_zip z ds))) = ds"
proof -
  from assms obtain active where "map_of (zips ds) z = Some active"
    by (metis map_of_eq_None_keys not_Some_eq)
  then show ?thesis
    by (simp add: toggle_zip_def update_conv' update_triv)
qed

theorem toggle_zip_involution_witness:
  "''94040'' \<in> fst ` set (zips toggled_dataset)
   \<and> snd (toggle_zip ''94040'' toggled_dataset)
       = toggled_dataset\<lparr>zips := [(''12345'', True), (''94022'', True), (''94040'', True)]\<rparr>
   \<and> snd (toggle_zip ''94040'' (snd (toggle_zip ''94040'' toggled_dataset))) = toggled_dataset"
proof -
  have h: "''94040'' \<in> fst ` set (zips toggled_dataset)"
    by (simp add: toggled_dataset_def)
  show ?thesis
    using h toggle_zip_involution [OF h]
    by (simp add: toggled_dataset_def toggle_zip_def)
qed

section \<open>Loading\<close>

lemma set_first_occurrences: "set (first_occurrences xs) = set xs"
  by (induction xs) auto

lemma distinct_first_occurrences: "distinct (first_occurrences xs)"
  by (induction xs) (auto simp: distinct_removeAll)

lemma length_first_occurrences: "length (first_occurrences xs) = card (set xs)"
  by (metis distinct_card distinct_first_occurrences set_first_occurrences)

lemma update_True_present:
  "x \<in> set ks \<Longrightarrow> AList.update x True (map (\<lambda>z. (z, True)) ks) = map (\<lambda>z. (z, True)) ks"
  by (induction ks) auto

lemma update_True_absent:
  "x \<notin> set ks \<Longrightarrow>
     AList.update x True (map (\<lambda>z. (z, True)) ks) = map (\<lambda>z. (z, True)) (ks @ [x])"
  by (induction ks) auto

text \<open>The dict comprehension, started from a dict that already holds the keys \<open>ks\<close>.\<close>

lemma fold_update_True:
  "fold (\<lambda>item d. AList.update item True d) xs (map (\<lambda>z. (z, True)) ks)
     = map (\<lambda>z. (z, True)) (ks @ filter (\<lambda>x. x \<notin> set ks) (first_occurrences xs))"
proof (induction xs arbitrary: ks)
  case Nil
  show ?case by simp
next
  case (Cons x xs)
  show ?case
  proof (cases "x \<in> set ks")
    case True
    then have "filter (\<lambda>y. y \<notin> set ks) (removeAll x (first_occurrences xs))
        = filter (\<lambda>y. y \<notin> set ks) (first_occurrences xs)"
      by (auto simp: removeAll_filter_not_eq intro: filter_cong)
    with True Cons.IH [of ks] show ?thesis
      by (simp add: update_True_present)
  next
    case False
    have "filter (\<lambda>y. y \<notin> set (ks @ [x])) (first_occurrences xs)
        = filter (\<lambda>y. y \<notin> set ks) (removeAll x (first_occurrences xs))"
      by (auto simp: removeAll_filter_not_eq intro: filter_cong)
    with False Cons.IH [of "ks @ [x]"] show ?thesis
      by (simp add: update_True_absent)
  qed
qed

lemma zip_code_dict:
  "fold (\<lambda>item d. AList.update item True d) xs []
     = map (\<lambda>z. (z, True)) (first_occurrences xs)"
  using fold_update_True [of xs "[]"] by simp

lemma load_file_result:
  "load_file set_order rows ds
     = (Inr (), ds\<lparr>data := Some rows,
                    zips := map (\<lambda>z. (z, True)) (first_occurrences (map fst rows)),
                    times_list := set_order (map (\<lambda>item. fst (snd item)) rows)\<rparr>)"
  by (simp add: load_file_def initialize_labels_def zip_code_dict)

text \<open>
  Claim C4: after every load, whatever the dataset held before and whichever zip codes
  had been toggled, \<^verbatim>\<open>_zips\<close> has exactly the distinct zip codes of the loaded readings
  as keys, in the order of their first occurrence, every flag \<^verbatim>\<open>True\<close>; so its length is
  the number of distinct zip codes.
\<close>

theorem load_file_zip_states:
  "fst (load_file set_order rows ds) = Inr ()
   \<and> data (snd (load_file set_order rows ds)) = Some rows
   \<and> zips (snd (load_file set_order rows ds))
       = map (\<lambda>z. (z, True)) (first_occurrences (map fst rows))
   \<and> distinct (map fst (zips (snd (load_file set_order rows ds))))
   \<and> set (map fst (zips (snd (load_file set_order rows ds)))) = fst ` set rows
   \<and> length (zips (snd (load_file set_order rows ds))) = card (fst ` set rows)"
  unfolding load_file_result
  by (simp add: comp_def distinct_first_occurrences set_first_occurrences
      length_first_occurrences)

section \<open>Cross-table statistics: the reductions\<close>

lemma py_min_Min: "py_min x xs = Min (set (x # xs))"
proof -
  have "(\<lambda>item m. if item < m then item else m) = (min :: rat \<Rightarrow> rat \<Rightarrow> rat)"
    by (auto simp: fun_eq_iff min_def)
  then show ?thesis
    unfolding py_min_def Min.set_eq_fold by simp
qed

lemma py_max_Max: "py_max x xs = Max (set (x # xs))"
proof -
  have "(\<lambda>item m. if item > m then item else m) = (max :: rat \<Rightarrow> rat \<Rightarrow> rat)"
    by (auto simp: fun_eq_iff max_def)
  then show ?thesis
    unfolding py_max_def Max.set_eq_fold by simp
qed



lemma matching_concentrations_filter:
  "matching_concentrations z t rows
     = map (\<lambda>r. snd (snd r)) (filter (\<lambda>r. fst r = z \<and> fst (snd r) = t) rows)"
  by (induction rows) auto

lemma mset_matching_concentrations:
  "mset (matching_concentrations z t rows) = matching z t rows"
  by (simp add: matching_concentrations_filter matching_def)

lemma set_matching: "set_mset (matching z t rows) = {c. (z, t, c) \<in> set rows}"
  by (force simp: matching_def)

lemma matching_empty_iff:
  "matching z t rows = {#} \<longleftrightarrow> (\<forall>c. (z, t, c) \<notin> set rows)"
proof -
  have "matching z t rows = {#} \<longleftrightarrow> set_mset (matching z t rows) = {}"
    by simp
  then show ?thesis
    unfolding set_matching by blast
qed

lemma matching_concentrations_Nil_iff:
  "matching_concentrations z t rows = [] \<longleftrightarrow> matching z t rows = {#}"
  by (metis mset_matching_concentrations mset_zero_iff)

lemma cross_table_statistics_state: "snd (cross_table_statistics rnd z t ds) = ds"
  by (simp add: cross_table_statistics_def split: option.split list.split)

lemma statistics_None:
  "data ds = None \<Longrightarrow> cross_table_statistics rnd z t ds = (Inl EmptyDatasetError, ds)"
  by (simp add: cross_table_statistics_def)

lemma statistics_Nil:
  "data ds = Some rows \<Longrightarrow> matching_concentrations z t rows = [] \<Longrightarrow>
     cross_table_statistics rnd z t ds = (Inl NoMatchingItems, ds)"
  by (simp add: cross_table_statistics_def)

lemma statistics_Cons:
  "data ds = Some rows \<Longrightarrow> matching_concentrations z t rows = c # cs \<Longrightarrow>
     cross_table_statistics rnd z t ds
       = (Inr (Min (set (c # cs)), rnd (py_sum rnd (c # cs) / of_nat (length (c # cs))),
               Max (set (c # cs))), ds)"
  by (simp add: cross_table_statistics_def py_min_Min py_max_Max)

lemma default_dataset_eq:
  "default_dataset = \<lparr>data = Some default_data, header = ''CLEAN AIR 2022'',
      zips = [(''12345'', True), (''94022'', True), (''94040'', True)],
      times_list = [''Midday'', ''Morning'', ''Evening'']\<rparr>"
  by (simp add: default_dataset_def load_file_result DataSet_def default_data_def)



section \<open>The cross table: the iteration\<close>

lemma tuple_item_selected: "tuple_item tr (stat_value stat) = selected stat tr"
  by (cases stat; cases tr) (simp_all add: tuple_item_def selected_def)

text \<open>One step of the inner loop.\<close>

lemma print_cell_step:
  assumes "data ds = Some rows"
  shows "print_cells rnd stat z (t # ts) out ds
    = print_cells rnd stat z ts (out @ cell_text rnd stat ds z t) ds"
proof (cases "matching_concentrations z t rows")
  case Nil
  from statistics_Nil [OF assms Nil, of rnd] show ?thesis
    by (simp add: cell_text_def)
next
  case (Cons c cs)
  from statistics_Cons [OF assms Cons, of rnd] show ?thesis
    by (simp add: cell_text_def tuple_item_selected)
qed

lemma print_cells_text:
  assumes "data ds = Some rows"
  shows "print_cells rnd stat z ts out ds
    = (out @ concat (map (cell_text rnd stat ds z) ts), Inr (), ds)"
proof (induction ts arbitrary: out)
  case Nil
  show ?case by simp
next
  case (Cons t ts)
  show ?case
    unfolding print_cell_step [OF assms] Cons.IH by simp
qed

lemma print_rows_text:
  assumes "data ds = Some rows"
  shows "print_rows rnd stat zs out ds
    = (out @ concat (map (row_text rnd stat ds) zs), Inr (), ds)"
proof (induction zs arbitrary: out)
  case Nil
  show ?case by simp
next
  case (Cons z zs)
  show ?case
    by (simp add: print_cells_text [OF assms] Cons.IH row_text_def)
qed

lemma header_loop:
  "fold (\<lambda>time_of_day out. out @ rjust 10 time_of_day) ts out
     = out @ concat (map (rjust 10) ts)"
  by (induction ts arbitrary: out) simp_all

lemma update_new_key:
  "k \<notin> fst ` set al \<Longrightarrow> AList.update k v al = al @ [(k, v)]"
  by (induction al) auto

lemma dict_of_items:
  "distinct (map fst (acc @ al)) \<Longrightarrow>
     fold (\<lambda>(key, value) d. AList.update key value d) al acc = acc @ al"
proof (induction al arbitrary: acc)
  case Nil
  show ?case by simp
next
  case (Cons p al)
  obtain k v where p: "p = (k, v)" by (cases p)
  from Cons.prems have k: "k \<notin> fst ` set acc"
    by (auto simp: p)
  from Cons.prems have d: "distinct (map fst ((acc @ [(k, v)]) @ al))"
    by (simp add: p)
  show ?case
    using Cons.IH [OF d] by (simp add: p update_new_key [OF k])
qed

lemma filtered_zips:
  assumes "distinct (map fst al)"
  shows "map fst (fold (\<lambda>(key, value) d. AList.update key value d)
            (filter (\<lambda>(key, value). value = True) al) []) = map fst (filter snd al)"
proof -
  have f: "filter (\<lambda>(key, value). value = True) al = filter snd al"
    by (rule filter_cong) auto
  have "distinct (map fst ([] @ filter snd al))"
    using assms by (simp add: distinct_map_filter)
  from dict_of_items [OF this] show ?thesis
    unfolding f by simp
qed

lemma display_loaded:
  assumes "data ds = Some rows" and "rows \<noteq> []" and "distinct (map fst (zips ds))"
  shows "display_cross_table rnd stat ds = (table_text rnd stat ds, Inr (), ds)"
proof -
  have g: "\<not> (data ds = None \<or> data ds = Some [])"
    using assms by simp
  show ?thesis
    unfolding display_cross_table_def Let_def if_not_P [OF g] filtered_zips [OF assms(3)]
      header_loop print_rows_text [OF assms(1)] table_text_def active_zips_def
    by simp
qed

lemma display_not_loaded:
  assumes "data ds = None \<or> data ds = Some []"
  shows "display_cross_table rnd stat ds = (notice_text, Inr (), ds)"
  using assms by (auto simp: display_cross_table_def notice_text_def)

lemma display_state: "snd (snd (display_cross_table rnd stat ds)) = ds"
proof (cases "data ds = None \<or> data ds = Some []")
  case True
  then show ?thesis by (simp add: display_not_loaded)
next
  case False
  then obtain rows where "data ds = Some rows" by auto
  then show ?thesis
    using False
    by (simp add: display_cross_table_def Let_def print_rows_text)
qed

section \<open>Sessions\<close>

lemma exec_data:
  "data (exec rnd so c ds) = (case c of LoadFile rows \<Rightarrow> Some rows | _ \<Rightarrow> data ds)"
  by (cases c)
    (simp_all add: set_header_def toggle_zip_def get_zips_def load_file_result
      cross_table_statistics_state display_state split: option.split)

lemma fold_exec_data_None:
  "data (fold (exec rnd so) cmds ds) = None
     \<longleftrightarrow> data ds = None \<and> (\<forall>c \<in> set cmds. \<not> is_load c)"
proof (induction cmds arbitrary: ds)
  case Nil
  show ?case by simp
next
  case (Cons c cmds)
  show ?case
    by (cases c) (simp_all add: Cons.IH exec_data del: exec.simps)
qed

lemma session_data_None:
  "data (session rnd so h cmds) = None \<longleftrightarrow> (\<forall>c \<in> set cmds. \<not> is_load c)"
  by (simp add: session_def fold_exec_data_None DataSet_def)

text \<open>
  The keys of \<^verbatim>\<open>_zips\<close> are distinct in every state of a session, as the keys of a dict
  are.
\<close>

lemma exec_zips_distinct:
  "distinct (map fst (zips ds)) \<Longrightarrow> distinct (map fst (zips (exec rnd so c ds)))"
  by (cases c)
    (simp_all add: set_header_def toggle_zip_def get_zips_def load_file_result
      cross_table_statistics_state display_state distinct_update comp_def
      distinct_first_occurrences split: option.split)

lemma fold_exec_zips_distinct:
  "distinct (map fst (zips ds)) \<Longrightarrow> distinct (map fst (zips (fold (exec rnd so) cmds ds)))"
  by (induction cmds arbitrary: ds) (simp_all add: exec_zips_distinct del: exec.simps)

lemma session_zips_distinct: "distinct (map fst (zips (session rnd so h cmds)))"
  by (simp add: session_def fold_exec_zips_distinct DataSet_def)

text \<open>
  Every method keeps a header of at most 30 characters; so does construction in the
  earlier snapshot.
\<close>

lemma exec_header_bounded:
  "length (header ds) \<le> 30 \<Longrightarrow> length (header (exec rnd so c ds)) \<le> 30"
  by (cases c)
    (simp_all add: set_header_def max_header_length_def toggle_zip_def get_zips_def
      load_file_result cross_table_statistics_state display_state split: option.split)

lemma fold_exec_header_bounded:
  "length (header ds) \<le> 30 \<Longrightarrow> length (header (fold (exec rnd so) cmds ds)) \<le> 30"
  by (induction cmds arbitrary: ds) (simp_all add: exec_header_bounded del: exec.simps)

lemma session_header_bounded:
  "length h \<le> 30 \<Longrightarrow> length (header (session rnd so h cmds)) \<le> 30"
  by (simp add: session_def fold_exec_header_bounded DataSet_def)

lemma sample_session_header_bounded:
  "DataSet_sample h = Inr ds \<Longrightarrow> length (header (fold (exec rnd so) cmds ds)) \<le> 30"
  by (rule fold_exec_header_bounded)
    (auto simp: DataSet_sample_def set_header_def max_header_length_def split: if_splits)

text \<open>
  Claim C2: \<^verbatim>\<open>_cross_table_statistics\<close> raises \<^verbatim>\<open>EmptyDatasetError\<close> exactly when \<^verbatim>\<open>_data\<close>
  is \<^verbatim>\<open>None\<close>, which in a session is exactly when no load has occurred (a load of zero
  rows counts as a load); on a loaded dataset it raises \<^verbatim>\<open>NoMatchingItems\<close> exactly when
  no reading matches both descriptors; and it never changes the dataset.
\<close>

theorem cross_table_statistics_errors:
  "(fst (cross_table_statistics rnd z t ds) = Inl EmptyDatasetError \<longleftrightarrow> data ds = None)
   \<and> (fst (cross_table_statistics rnd z t (session rnd set_order h cmds)) = Inl EmptyDatasetError
        \<longleftrightarrow> (\<forall>c \<in> set cmds. \<not> is_load c))
   \<and> (data ds = Some rows \<longrightarrow>
        (fst (cross_table_statistics rnd z t ds) = Inl NoMatchingItems
           \<longleftrightarrow> (\<forall>c. (z, t, c) \<notin> set rows)))
   \<and> snd (cross_table_statistics rnd z t ds) = ds"
proof -
  have a: "fst (cross_table_statistics rnd z t ds') = Inl EmptyDatasetError \<longleftrightarrow> data ds' = None"
    for ds'
    by (simp add: cross_table_statistics_def split: option.split list.split)
  have b: "fst (cross_table_statistics rnd z t ds) = Inl NoMatchingItems
           \<longleftrightarrow> (\<forall>c. (z, t, c) \<notin> set rows)" if d: "data ds = Some rows"
  proof (cases "matching_concentrations z t rows")
    case Nil
    then have "\<forall>c. (z, t, c) \<notin> set rows"
      by (simp add: matching_concentrations_Nil_iff matching_empty_iff)
    with statistics_Nil [OF d Nil, of rnd] show ?thesis
      by simp
  next
    case (Cons c cs)
    then have "matching z t rows \<noteq> {#}"
      by (metis matching_concentrations_Nil_iff list.distinct(1))
    then have "\<not> (\<forall>c. (z, t, c) \<notin> set rows)"
      by (simp only: matching_empty_iff not_False_eq_True)
    with statistics_Cons [OF d Cons, of rnd] show ?thesis
      by simp
  qed
  show ?thesis
    using a b by (simp add: session_data_None cross_table_statistics_state)
qed

theorem cross_table_statistics_errors_witness:
  "\<not> is_load (SetHeader ''h'') \<and> \<not> is_load (Display Stats_AVG)
   \<and> fst (cross_table_statistics float64 ''94022'' ''Morning''
        (session float64 remdups [] [SetHeader ''h'', Display Stats_AVG])) = Inl EmptyDatasetError
   \<and> data empty_file_dataset = Some []
   \<and> fst (cross_table_statistics float64 ''94022'' ''Morning'' empty_file_dataset)
       = Inl NoMatchingItems
   \<and> data default_dataset = Some default_data
   \<and> cross_table_statistics float64 ''94040'' ''Evening'' default_dataset
       = (Inl NoMatchingItems, default_dataset)"
proof -
  have e: "data empty_file_dataset = Some []"
    by (simp add: empty_file_dataset_def load_file_result)
  have d: "data default_dataset = Some default_data"
    by (simp add: default_dataset_eq)
  have n: "\<forall>c. (''94040'', ''Evening'', c) \<notin> set default_data"
    by (simp add: default_data_def)
  show ?thesis
    using e d n
      cross_table_statistics_errors [of float64 "''94022''" "''Morning''" empty_file_dataset
        remdups "[]" "[SetHeader ''h'', Display Stats_AVG]" "[]"]
      cross_table_statistics_errors [of float64 "''94040''" "''Evening''" default_dataset
        remdups "[]" "[]" default_data]
    by (simp add: prod_eq_iff)
qed

text \<open>
  Claim C10: \<^verbatim>\<open>get_zips\<close>, \<^verbatim>\<open>_cross_table_statistics\<close> and \<^verbatim>\<open>display_cross_table\<close> leave the
  dataset (readings, zip states, time labels and header) as it was, for every state and
  every argument.
\<close>

theorem queries_leave_state:
  "snd (get_zips ds) = ds
   \<and> snd (cross_table_statistics rnd z t ds) = ds
   \<and> snd (snd (display_cross_table rnd stat ds)) = ds"
  by (simp add: get_zips_def cross_table_statistics_state display_state)

section \<open>The cross table: the output\<close>

lemma cell_text_NA:
  assumes "data ds = Some rows" and "\<forall>c. (z, t, c) \<notin> set rows"
  shows "cell_text rnd stat ds z t = rjust 10 ''N/A''"
proof -
  from assms(2) have "matching_concentrations z t rows = []"
    by (simp add: matching_concentrations_Nil_iff matching_empty_iff)
  from statistics_Nil [OF assms(1) this] show ?thesis
    by (simp add: cell_text_def)
qed

lemma cell_text_number:
  assumes "data ds = Some rows" and "(z, t, c) \<in> set rows"
  shows "\<exists>tr. fst (cross_table_statistics rnd z t ds) = Inr tr
           \<and> cell_text rnd stat ds z t = rjust 10 (format_2f (selected stat tr))"
proof -
  from assms(2) have "matching_concentrations z t rows \<noteq> []"
    by (auto simp: matching_concentrations_Nil_iff matching_empty_iff)
  then obtain c' cs where "matching_concentrations z t rows = c' # cs"
    by (cases "matching_concentrations z t rows") auto
  from statistics_Cons [OF assms(1) this] show ?thesis
    by (simp add: cell_text_def)
qed

text \<open>
  Claim C3, as amended: for a dataset that holds at least one reading,
  \<^verbatim>\<open>display_cross_table\<close> prints the table: the time labels as columns, one row for each
  zip code whose flag is \<^verbatim>\<open>True\<close>, in the order of \<^verbatim>\<open>_zips\<close>, inactive zip codes left
  out, and in each cell the selected statistic with two decimals, or \<^verbatim>\<open>N/A\<close> when no
  reading matches, right-aligned in a field of width 10. When no load has occurred, and
  also when the load brought zero rows, it prints the notice and no table.
\<close>

theorem display_cross_table_output:
  "(data ds = Some rows \<and> rows \<noteq> [] \<and> distinct (map fst (zips ds)) \<longrightarrow>
       display_cross_table rnd stat ds = (table_text rnd stat ds, Inr (), ds)
       \<and> (\<forall>z t. (\<forall>c. (z, t, c) \<notin> set rows) \<longrightarrow>
             cell_text rnd stat ds z t = rjust 10 ''N/A'')
       \<and> (\<forall>z t c. (z, t, c) \<in> set rows \<longrightarrow>
             (\<exists>tr. fst (cross_table_statistics rnd z t ds) = Inr tr
                \<and> cell_text rnd stat ds z t = rjust 10 (format_2f (selected stat tr)))))
   \<and> (data ds = None \<or> data ds = Some [] \<longrightarrow>
       display_cross_table rnd stat ds = (notice_text, Inr (), ds))"
  using display_loaded [of ds rows rnd stat] display_not_loaded [of ds rnd stat]
    cell_text_NA [of ds rows _ _ rnd stat] cell_text_number [of ds rows _ _ _ rnd stat]
  by blast

theorem display_cross_table_output_witness:
  "data toggled_dataset = Some default_data \<and> default_data \<noteq> []
   \<and> distinct (map fst (zips toggled_dataset))
   \<and> fst (display_cross_table float64 Stats_MIN toggled_dataset)
      = ''         Midday   Morning   Evening'' @ [newline]
        @ ''12345       N/A      1.10       N/A'' @ [newline]
        @ ''94022      1.00      2.20      3.20'' @ [newline]
   \<and> data (DataSet ''h'') = None
   \<and> fst (display_cross_table float64 Stats_MIN (DataSet ''h'')) = notice_text"
proof -
  have h: "data toggled_dataset = Some default_data \<and> default_data \<noteq> []
      \<and> distinct (map fst (zips toggled_dataset))"
    by (simp add: toggled_dataset_def default_data_def)
  have n: "data (DataSet ''h'') = None \<or> data (DataSet ''h'') = Some []"
    by (simp add: DataSet_def)
  have t: "table_text float64 Stats_MIN toggled_dataset
      = ''         Midday   Morning   Evening'' @ [newline]
        @ ''12345       N/A      1.10       N/A'' @ [newline]
        @ ''94022      1.00      2.20      3.20'' @ [newline]"
    unfolding toggled_dataset_def default_data_def by code_simp
  show ?thesis
    using h n t
      display_cross_table_output [of toggled_dataset default_data float64 Stats_MIN]
      display_cross_table_output [of "DataSet ''h''" "[]" float64 Stats_MIN]
    by (simp add: DataSet_def)
qed

text \<open>
  Claim C3 as stated fails after a load of zero rows: \<^verbatim>\<open>_data\<close> is set, and
  \<^verbatim>\<open>display_cross_table\<close> prints the notice, not the (empty) table.
\<close>

theorem display_empty_file_counterexample:
  "data empty_file_dataset = Some []
   \<and> fst (display_cross_table float64 Stats_MIN empty_file_dataset) = notice_text
   \<and> table_text float64 Stats_MIN empty_file_dataset = ''     '' @ [newline]
   \<and> fst (display_cross_table float64 Stats_MIN empty_file_dataset)
       \<noteq> table_text float64 Stats_MIN empty_file_dataset"
  by (simp add: empty_file_dataset_def load_file_result display_cross_table_def
      notice_text_def table_text_def active_zips_def DataSet_def)

section \<open>The order of the statistics\<close>







end
